theory Spec2Isabelle
  imports Main
begin

section \<open>Data model (types of the application)\<close>

text \<open>
  Dates are milliseconds since the epoch (\<open>int\<close>), identifiers are strings. The string
  unions of the source are datatypes with the source's literals as constructors.
\<close>

datatype RequestType = extra_time | app_access | bedtime_extension | rule_suspension

datatype RequestStatus = pending | approved | denied | expired

datatype Decision = approve | deny

record Approval =
  parentId :: string
  decision :: Decision
  reason :: "string option"
  timestamp :: int

text \<open>
  \<open>Request\<close> is split the way \<open>BaseService\<close> handles it: the payload given to
  \<open>create\<close> (\<open>Omit<T, 'id' | 'createdAt' | 'updatedAt'>\<close>), the stored document (payload
  and the two stamps) and the entity (document and its \<open>id\<close>).
\<close>

record RequestData =
  familyId :: string
  requesterId :: string
  rtype :: RequestType
  target :: string
  duration :: "int option"
  reason :: "string option"
  status :: RequestStatus
  approvals :: "Approval list"
  expiresAt :: int

record RequestDoc = RequestData +
  createdAt :: int
  updatedAt :: int

record Request = RequestDoc +
  id' :: string

text \<open>
  \<open>Partial<Request>\<close> as \<open>RequestService\<close> passes it to \<open>update\<close>: only these fields
  are ever set. \<open>u_updatedAt\<close> is the stamp \<open>entityToDoc\<close> adds.
\<close>

record RequestUpdate =
  u_approvals :: "Approval list option"
  u_status :: "RequestStatus option"
  u_expiresAt :: "int option"
  u_updatedAt :: "int option"

record 'a ApiResponse =
  success :: bool
  data :: "'a option"
  error :: "string option"

text \<open>
  A thrown value (\<open>error: any\<close>) as the handlers read it: \<open>error.code\<close> and
  \<open>error.message\<close>, each possibly undefined.
\<close>

record RawError =
  raw_code :: "string option"
  raw_message :: "string option"

record AppError =
  code :: string
  message :: string
  details :: "RawError option"
  timestamp :: int

section \<open>JavaScript string and truthiness helpers\<close>

fun startsWith :: "string \<Rightarrow> string \<Rightarrow> bool" where
  "startsWith s [] = True"
| "startsWith [] (p # ps) = False"
| "startsWith (c # cs) (p # ps) = (c = p \<and> startsWith cs ps)"

fun includes' :: "string \<Rightarrow> string \<Rightarrow> bool" where
  "includes' [] sub = (sub = [])"
| "includes' (c # cs) sub = (startsWith (c # cs) sub \<or> includes' cs sub)"

text \<open>\<open>x || d\<close> on an optional string: undefined and the empty string are falsy.\<close>

definition orElse :: "string option \<Rightarrow> string \<Rightarrow> string" where
  "orElse x d = (case x of None \<Rightarrow> d | Some s \<Rightarrow> if s = [] then d else s)"

text \<open>\<open>x?.startsWith(p)\<close> and \<open>x?.includes(p)\<close> used as conditions.\<close>

definition optStartsWith :: "string option \<Rightarrow> string \<Rightarrow> bool" where
  "optStartsWith x p = (case x of None \<Rightarrow> False | Some s \<Rightarrow> startsWith s p)"

definition optIncludes :: "string option \<Rightarrow> string \<Rightarrow> bool" where
  "optIncludes x p = (case x of None \<Rightarrow> False | Some s \<Rightarrow> includes' s p)"

section \<open>The document database as the services see it\<close>

text \<open>
  The hosted database is outside the repository. It is represented by the \<open>requests\<close>
  collection (\<open>docs\<close>), the server clock that \<open>serverTimestamp()\<close> resolves to, and a
  script of the outcomes of the coming SDK calls: each call consumes the head of
  \<open>faults\<close>, and \<open>Some e\<close> there makes the call throw \<open>e\<close>. An empty script means no
  further call throws.
\<close>

record Firestore =
  docs :: "string \<rightharpoonup> RequestDoc"
  faults :: "RawError option list"
  serverTime :: int

definition next_fault :: "Firestore \<Rightarrow> RawError option \<times> Firestore" where
  "next_fault fs = (case faults fs of [] \<Rightarrow> (None, fs) | f # rest \<Rightarrow> (f, fs\<lparr>faults := rest\<rparr>))"

definition getDoc :: "Firestore \<Rightarrow> string \<Rightarrow> (RawError + RequestDoc option) \<times> Firestore" where
  "getDoc fs i =
     (case next_fault fs of
        (Some e, fs') \<Rightarrow> (Inl e, fs')
      | (None, fs') \<Rightarrow> (Inr (docs fs' i), fs'))"

definition addDoc :: "Firestore \<Rightarrow> string \<Rightarrow> RequestDoc \<Rightarrow> (RawError + string) \<times> Firestore" where
  "addDoc fs newId docData =
     (case next_fault fs of
        (Some e, fs') \<Rightarrow> (Inl e, fs')
      | (None, fs') \<Rightarrow> (Inr newId, fs'\<lparr>docs := (docs fs')(newId \<mapsto> docData)\<rparr>))"

definition applyUpdate :: "RequestUpdate \<Rightarrow> RequestDoc \<Rightarrow> RequestDoc" where
  "applyUpdate u d =
     d\<lparr>approvals := (case u_approvals u of None \<Rightarrow> approvals d | Some v \<Rightarrow> v),
       status := (case u_status u of None \<Rightarrow> status d | Some v \<Rightarrow> v),
       expiresAt := (case u_expiresAt u of None \<Rightarrow> expiresAt d | Some v \<Rightarrow> v),
       updatedAt := (case u_updatedAt u of None \<Rightarrow> updatedAt d | Some v \<Rightarrow> v)\<rparr>"

definition not_found :: RawError where
  "not_found = \<lparr>raw_code = Some ''not-found'', raw_message = Some ''No document to update''\<rparr>"

text \<open>\<open>updateDoc\<close> fails on a document that does not exist.\<close>

definition updateDoc :: "Firestore \<Rightarrow> string \<Rightarrow> RequestUpdate \<Rightarrow> (RawError + unit) \<times> Firestore" where
  "updateDoc fs i u =
     (case next_fault fs of
        (Some e, fs') \<Rightarrow> (Inl e, fs')
      | (None, fs') \<Rightarrow>
          (case docs fs' i of
             None \<Rightarrow> (Inl not_found, fs')
           | Some d \<Rightarrow> (Inr (), fs'\<lparr>docs := (docs fs')(i \<mapsto> applyUpdate u d)\<rparr>)))"

definition deleteDoc :: "Firestore \<Rightarrow> string \<Rightarrow> (RawError + unit) \<times> Firestore" where
  "deleteDoc fs i =
     (case next_fault fs of
        (Some e, fs') \<Rightarrow> (Inl e, fs')
      | (None, fs') \<Rightarrow> (Inr (), fs'\<lparr>docs := (docs fs')(i := None)\<rparr>))"

text \<open>
  Queries: the service turns its options into a list of constraints and hands it to
  \<open>getDocs\<close>. How the database evaluates the constraints is not part of the repository,
  so the evaluation is a parameter \<open>engine\<close>.
\<close>

datatype Direction = asc | desc

datatype 'v QueryConstraint =
    where_c string string 'v
  | orderBy_c string Direction
  | limit_c nat
  | startAfter_c string

record 'v QueryOptions =
  q_where :: "(string \<times> string \<times> 'v) list"
  q_orderBy :: "(string \<times> Direction) list"
  q_limit :: "nat option"
  q_startAfter :: "string option"

type_synonym 'v Engine =
  "'v QueryConstraint list \<Rightarrow> (string \<rightharpoonup> RequestDoc) \<Rightarrow> (string \<times> RequestDoc option) list"

definition getDocs ::
  "'v Engine \<Rightarrow> Firestore \<Rightarrow> 'v QueryConstraint list
     \<Rightarrow> (RawError + (string \<times> RequestDoc option) list) \<times> Firestore" where
  "getDocs engine fs q =
     (case next_fault fs of
        (Some e, fs') \<Rightarrow> (Inl e, fs')
      | (None, fs') \<Rightarrow> (Inr (engine q (docs fs')), fs'))"

section \<open>BaseService\<close>

text \<open>
  The generic service is taken at the entity type \<open>Request\<close>, as \<open>RequestService\<close>
  instantiates it. Each operation is the source's \<open>try\<close> block with the thrown value of a
  database call as \<open>Inl\<close>, and its \<open>catch\<close> as the \<open>Inl\<close> branch. \<open>newId\<close> is the
  identifier the database generates in \<open>addDoc\<close>.
\<close>

definition docToEntity :: "string \<Rightarrow> RequestDoc option \<Rightarrow> Request option" where
  "docToEntity i snap =
     (case snap of
        None \<Rightarrow> None
      | Some d \<Rightarrow> Some (RequestDoc.extend d \<lparr>id' = i\<rparr>))"

definition entityToDoc :: "Firestore \<Rightarrow> RequestUpdate \<Rightarrow> RequestUpdate" where
  "entityToDoc fs updates = updates\<lparr>u_updatedAt := Some (serverTime fs)\<rparr>"

text \<open>
  \<open>BaseService.handleError\<close> builds a local \<open>AppError\<close> (\<open>now\<close> is its
  \<open>new Date()\<close>) and returns only its message.
\<close>

definition handleError_appError :: "int \<Rightarrow> RawError \<Rightarrow> AppError" where
  "handleError_appError now e =
     \<lparr>code = orElse (raw_code e) ''UNKNOWN_ERROR'',
      message = orElse (raw_message e) ''An unexpected error occurred'',
      details = Some e,
      timestamp = now\<rparr>"

definition BaseService_handleError :: "RawError \<Rightarrow> 'a ApiResponse" where
  "BaseService_handleError e =
     \<lparr>success = False, data = None, error = Some (message (handleError_appError 0 e))\<rparr>"

definition create :: "Firestore \<Rightarrow> string \<Rightarrow> RequestData \<Rightarrow> Request ApiResponse \<times> Firestore" where
  "create fs newId entityData =
     (case addDoc fs newId
             (RequestData.extend entityData
                \<lparr>createdAt = serverTime fs, updatedAt = serverTime fs\<rparr>) of
        (Inl e, fs1) \<Rightarrow> (BaseService_handleError e, fs1)
      | (Inr docRef, fs1) \<Rightarrow>
          (case getDoc fs1 docRef of
             (Inl e, fs2) \<Rightarrow> (BaseService_handleError e, fs2)
           | (Inr createdDoc, fs2) \<Rightarrow>
               (\<lparr>success = True, data = docToEntity docRef createdDoc, error = None\<rparr>, fs2)))"

definition getById :: "Firestore \<Rightarrow> string \<Rightarrow> Request ApiResponse \<times> Firestore" where
  "getById fs i =
     (case getDoc fs i of
        (Inl e, fs1) \<Rightarrow> (BaseService_handleError e, fs1)
      | (Inr docSnap, fs1) \<Rightarrow>
          (case docSnap of
             None \<Rightarrow> (\<lparr>success = False, data = None, error = Some ''Document not found''\<rparr>, fs1)
           | Some d \<Rightarrow>
               (\<lparr>success = True, data = docToEntity i docSnap, error = None\<rparr>, fs1)))"

definition update :: "Firestore \<Rightarrow> string \<Rightarrow> RequestUpdate \<Rightarrow> Request ApiResponse \<times> Firestore" where
  "update fs i updates =
     (case updateDoc fs i (entityToDoc fs updates) of
        (Inl e, fs1) \<Rightarrow> (BaseService_handleError e, fs1)
      | (Inr u, fs1) \<Rightarrow>
          (case getDoc fs1 i of
             (Inl e, fs2) \<Rightarrow> (BaseService_handleError e, fs2)
           | (Inr updatedDoc, fs2) \<Rightarrow>
               (\<lparr>success = True, data = docToEntity i updatedDoc, error = None\<rparr>, fs2)))"

definition delete :: "Firestore \<Rightarrow> string \<Rightarrow> unit ApiResponse \<times> Firestore" where
  "delete fs i =
     (case deleteDoc fs i of
        (Inl e, fs1) \<Rightarrow> (BaseService_handleError e, fs1)
      | (Inr u, fs1) \<Rightarrow> (\<lparr>success = True, data = None, error = None\<rparr>, fs1))"

definition buildQuery :: "'v QueryOptions \<Rightarrow> 'v QueryConstraint list" where
  "buildQuery options =
     map (\<lambda>(field, operator, v). where_c field operator v) (q_where options)
     @ map (\<lambda>(field, direction). orderBy_c field direction) (q_orderBy options)
     @ (case q_limit options of None \<Rightarrow> [] | Some n \<Rightarrow> if n = 0 then [] else [limit_c n])
     @ (case q_startAfter options of None \<Rightarrow> [] | Some c \<Rightarrow> [startAfter_c c])"

definition query ::
  "'v Engine \<Rightarrow> Firestore \<Rightarrow> 'v QueryOptions \<Rightarrow> Request list ApiResponse \<times> Firestore" where
  "query engine fs options =
     (case getDocs engine fs (buildQuery options) of
        (Inl e, fs1) \<Rightarrow> (BaseService_handleError e, fs1)
      | (Inr querySnapshot, fs1) \<Rightarrow>
          (\<lparr>success = True,
            data = Some (List.map_filter (\<lambda>(i, d). docToEntity i d) querySnapshot),
            error = None\<rparr>, fs1))"

section \<open>RequestService\<close>

text \<open>
  Two facts of the database client decide what the service's calls do.

  A write whose data holds a property with the value \<open>undefined\<close> is refused:
  \<open>addDoc\<close> and \<open>updateDoc\<close> throw while they validate the data, before anything reaches
  the database, and the \<open>catch\<close> of \<open>create\<close> and \<open>update\<close> returns the failure for the
  thrown value. \<open>createRequest\<close>, \<open>approveRequest\<close> and \<open>denyRequest\<close> always write the
  keys \<open>duration\<close> and \<open>reason\<close>, so an omitted argument is such a value. The client's
  message, which also names the function, the field and the document, is shortened here.
\<close>

definition undefinedField :: RawError where
  "undefinedField =
     \<lparr>raw_code = Some ''invalid-argument'',
      raw_message = Some ''Unsupported field value: undefined''\<rparr>"

definition rejectedWrite :: "Firestore \<Rightarrow> Request ApiResponse \<times> Firestore" where
  "rejectedWrite fs = (BaseService_handleError undefinedField, fs)"

text \<open>
  A \<open>Date\<close> that was written comes back as the database's \<open>Timestamp\<close> of the same
  instant, and \<open>docToEntity\<close> converts only \<open>createdAt\<close> and \<open>updatedAt\<close>. The collection
  keeps \<open>expiresAt\<close> as the milliseconds written; what \<open>request.data.expiresAt\<close> holds at
  run time is \<open>Timestamp_fromMillis\<close> of them.

  \<open>expiresAt < now\<close> with a \<open>Timestamp\<close> on the left and a \<open>Date\<close> on the right compares
  the number read from \<open>Timestamp.valueOf()\<close>, the seconds counted from the year 1 (that is
  \<open>seconds + 62135596800\<close>) followed by the nanoseconds as decimals, with the \<open>Date\<close>'s
  milliseconds. \<open>timestampBeforeDate\<close> is that comparison, both sides scaled by \<open>10^9\<close>;
  on the millisecond timestamps that a written \<open>Date\<close> gives, rounding to a double does
  not change its outcome.

  A \<open>Timestamp\<close> has no \<open>getTime\<close>: \<open>request.data.expiresAt.getTime()\<close> throws a
  \<open>TypeError\<close>.
\<close>

datatype Timestamp = Timestamp (seconds: int) (nanoseconds: int)

definition Timestamp_fromMillis :: "int \<Rightarrow> Timestamp" where
  "Timestamp_fromMillis ms = Timestamp (ms div 1000) ((ms mod 1000) * 1000000)"

definition timestampBeforeDate :: "Timestamp \<Rightarrow> int \<Rightarrow> bool" where
  "timestampBeforeDate ts now =
     ((seconds ts + 62135596800) * 1000000000 + nanoseconds ts < now * 1000000000)"






text \<open>
  \<open>checkRequestExpiry\<close>: \<open>now\<close> is \<open>new Date()\<close>. The test \<open>request.data.expiresAt < now\<close>
  is made on the \<open>Timestamp\<close> that the entity holds.
\<close>

definition checkRequestExpiry :: "Firestore \<Rightarrow> int \<Rightarrow> string \<Rightarrow> Request ApiResponse \<times> Firestore" where
  "checkRequestExpiry fs now requestId =
     (case getById fs requestId of
        (request, fs1) \<Rightarrow>
          (case data request of
             None \<Rightarrow> (request, fs1)
           | Some r \<Rightarrow>
               if \<not> success request then (request, fs1)
               else if timestampBeforeDate (Timestamp_fromMillis (expiresAt r)) now
                       \<and> status r = pending
               then update fs1 requestId
                      \<lparr>u_approvals = None, u_status = Some expired,
                       u_expiresAt = None, u_updatedAt = None\<rparr>
               else (request, fs1)))"


text \<open>
  \<open>createRequest\<close>: \<open>now\<close> is \<open>Date.now()\<close>, \<open>dur\<close> and \<open>why\<close> the optional arguments
  \<open>duration\<close> and \<open>reason\<close>. With either omitted the data handed to \<open>create\<close> holds an
  \<open>undefined\<close>, and the write is refused.
\<close>

definition createRequest ::
  "Firestore \<Rightarrow> int \<Rightarrow> string \<Rightarrow> string \<Rightarrow> string \<Rightarrow> RequestType \<Rightarrow> string
     \<Rightarrow> int option \<Rightarrow> string option \<Rightarrow> int \<Rightarrow> Request ApiResponse \<times> Firestore" where
  "createRequest fs now newId family requester ty tgt dur why expiresInHours =
     (if dur = None \<or> why = None then rejectedWrite fs
      else create fs newId
             \<lparr>familyId = family, requesterId = requester, rtype = ty, target = tgt,
              duration = dur, reason = why, status = pending, approvals = [],
              expiresAt = now + expiresInHours * 60 * 60 * 1000\<rparr>)"

text \<open>The next \<open>n\<close> SDK calls do not throw.\<close>

definition healthy :: "nat \<Rightarrow> Firestore \<Rightarrow> bool" where
  "healthy n fs = list_all (\<lambda>f. f = None) (take n (faults fs))"




definition emptyStore :: Firestore where
  "emptyStore = \<lparr>docs = Map.empty, faults = [], serverTime = 0\<rparr>"

text \<open>A present-day instant, 2026-11-03T00:00:00Z, in milliseconds.\<close>

definition today :: int where
  "today = 1793664000000"

text \<open>
  The shape every operation's result has: a success carries no error, a failure carries
  an error string and no data.
\<close>

definition structured :: "'a ApiResponse \<Rightarrow> bool" where
  "structured r = (if success r then error r = None else data r = None \<and> error r \<noteq> None)"

text \<open>What \<open>BaseService.handleError\<close> surfaces for a thrown value.\<close>

definition surfaced :: "RawError \<Rightarrow> string" where
  "surfaced e = orElse (raw_message e) ''An unexpected error occurred''"

definition sampleData :: RequestData where
  "sampleData =
     \<lparr>familyId = ''fam1'', requesterId = ''kid1'', rtype = app_access, target = ''game'',
      duration = None, reason = None, status = pending, approvals = [], expiresAt = 3600000\<rparr>"

section \<open>ErrorHandler\<close>

record ErrorContext =
  ctx_operation :: string
  ctx_userId :: "string option"
  ctx_familyId :: "string option"
  ctx_deviceId :: "string option"
  ctx_ruleId :: "string option"
  ctx_requestId :: "string option"

text \<open>
  The handler's state is its \<open>errorQueue\<close>. \<open>logError\<close> only writes to the console and
  \<open>reportError\<close> has an empty body; neither is part of the state.
\<close>

record ErrorHandler =
  errorQueue :: "(AppError \<times> ErrorContext) list"

definition authMessage :: "RawError \<Rightarrow> string" where
  "authMessage e =
     (if raw_code e = Some ''auth/user-not-found'' then ''No account found with this email address''
      else if raw_code e = Some ''auth/wrong-password'' then ''Incorrect password''
      else if raw_code e = Some ''auth/email-already-in-use''
        then ''An account with this email already exists''
      else if raw_code e = Some ''auth/weak-password''
        then ''Password should be at least 6 characters''
      else if raw_code e = Some ''auth/invalid-email'' then ''Invalid email address''
      else if raw_code e = Some ''auth/too-many-requests''
        then ''Too many failed attempts. Please try again later''
      else if raw_code e = Some ''auth/network-request-failed''
        then ''Network error. Please check your connection''
      else if raw_code e = Some ''auth/user-disabled'' then ''This account has been disabled''
      else if raw_code e = Some ''auth/requires-recent-login''
        then ''Please sign in again to continue''
      else orElse (raw_message e) ''Authentication error'')"

definition firestoreMessage :: "RawError \<Rightarrow> string" where
  "firestoreMessage e =
     (if raw_code e = Some ''firestore/permission-denied''
        then ''You do not have permission to perform this action''
      else if raw_code e = Some ''firestore/unavailable''
        then ''Service temporarily unavailable. Please try again later''
      else if raw_code e = Some ''firestore/deadline-exceeded''
        then ''Request timed out. Please try again''
      else if raw_code e = Some ''firestore/resource-exhausted''
        then ''Too many requests. Please try again later''
      else if raw_code e = Some ''firestore/unauthenticated'' then ''Please sign in to continue''
      else if raw_code e = Some ''firestore/not-found'' then ''The requested resource was not found''
      else if raw_code e = Some ''firestore/failed-precondition''
        then ''Operation failed due to invalid state''
      else orElse (raw_message e) ''Database error'')"

definition retryableCodes :: "string list" where
  "retryableCodes =
     [''firestore/unavailable'', ''firestore/deadline-exceeded'', ''firestore/resource-exhausted'',
      ''NETWORK_ERROR'', ''TIMEOUT_ERROR'']"

text \<open>\<open>codes.includes(error.code)\<close>: an undefined code is in no list of strings.\<close>

definition codeIn :: "string list \<Rightarrow> string option \<Rightarrow> bool" where
  "codeIn codes c = (case c of None \<Rightarrow> False | Some s \<Rightarrow> s \<in> set codes)"

definition isRetryableError :: "RawError \<Rightarrow> bool" where
  "isRetryableError e =
     (codeIn retryableCodes (raw_code e)
      \<or> optIncludes (raw_message e) ''network''
      \<or> optIncludes (raw_message e) ''timeout'')"

definition categorizeError :: "int \<Rightarrow> RawError \<Rightarrow> ErrorContext \<Rightarrow> AppError" where
  "categorizeError now e context =
     (if optStartsWith (raw_code e) ''auth/'' then
        \<lparr>code = ''AUTH_ERROR'', message = authMessage e, details = Some e, timestamp = now\<rparr>
      else if optStartsWith (raw_code e) ''firestore/'' then
        \<lparr>code = ''FIRESTORE_ERROR'', message = firestoreMessage e, details = Some e,
         timestamp = now\<rparr>
      else if raw_code e = Some ''NETWORK_ERROR'' \<or> optIncludes (raw_message e) ''network'' then
        \<lparr>code = ''NETWORK_ERROR'',
         message = ''Network error. Please check your internet connection'',
         details = Some e, timestamp = now\<rparr>
      else if raw_code e = Some ''TIMEOUT'' \<or> optIncludes (raw_message e) ''timeout'' then
        \<lparr>code = ''TIMEOUT_ERROR'', message = ''Request timed out. Please try again'',
         details = Some e, timestamp = now\<rparr>
      else if raw_code e = Some ''VALIDATION_ERROR'' then
        \<lparr>code = ''VALIDATION_ERROR'', message = orElse (raw_message e) ''Invalid input provided'',
         details = Some e, timestamp = now\<rparr>
      else if raw_code e = Some ''PERMISSION_ERROR'' then
        \<lparr>code = ''PERMISSION_ERROR'',
         message = orElse (raw_message e) ''You do not have permission to perform this action'',
         details = Some e, timestamp = now\<rparr>
      else if raw_code e = Some ''BUSINESS_ERROR'' then
        \<lparr>code = ''BUSINESS_ERROR'', message = orElse (raw_message e) ''Operation not allowed'',
         details = Some e, timestamp = now\<rparr>
      else if isRetryableError e then
        \<lparr>code = ''RETRYABLE_ERROR'', message = ''Temporary error. Will retry automatically'',
         details = Some e, timestamp = now\<rparr>
      else
        \<lparr>code = ''UNKNOWN_ERROR'', message = ''An unexpected error occurred'',
         details = Some e, timestamp = now\<rparr>)"

definition ErrorHandler_handleError ::
  "ErrorHandler \<Rightarrow> int \<Rightarrow> RawError \<Rightarrow> ErrorContext \<Rightarrow> AppError \<times> ErrorHandler" where
  "ErrorHandler_handleError eh now e context =
     (let appError = categorizeError now e context
      in (appError, eh\<lparr>errorQueue := errorQueue eh @ [(appError, context)]\<rparr>))"

definition shouldRetry :: "AppError \<Rightarrow> bool" where
  "shouldRetry e =
     (code e = ''RETRYABLE_ERROR'' \<or> code e = ''NETWORK_ERROR'' \<or> code e = ''TIMEOUT_ERROR'')"

text \<open>An \<open>AppError\<close> read as a thrown value: its code and message are both present.\<close>

definition asRaw :: "AppError \<Rightarrow> RawError" where
  "asRaw e = \<lparr>raw_code = Some (code e), raw_message = Some (message e)\<rparr>"

definition sampleContext :: ErrorContext where
  "sampleContext =
     \<lparr>ctx_operation = ''saveRule'', ctx_userId = None, ctx_familyId = None,
      ctx_deviceId = None, ctx_ruleId = None, ctx_requestId = None\<rparr>"

definition firestoreUnavailable :: RawError where
  "firestoreUnavailable =
     \<lparr>raw_code = Some ''firestore/unavailable'',
      raw_message = Some ''Failed to get document because the client is offline.''\<rparr>"

definition brokenStore :: Firestore where
  "brokenStore = emptyStore\<lparr>faults := [Some firestoreUnavailable]\<rparr>"

definition noOptions :: "string QueryOptions" where
  "noOptions = \<lparr>q_where = [], q_orderBy = [], q_limit = None, q_startAfter = None\<rparr>"

definition noUpdate :: RequestUpdate where
  "noUpdate = \<lparr>u_approvals = None, u_status = None, u_expiresAt = None, u_updatedAt = None\<rparr>"

definition noEngine :: "string Engine" where
  "noEngine q m = []"

section \<open>OfflineManager\<close>

record OfflineState =
  isConnected :: bool
  isInternetReachable :: bool
  netType :: "string option"
  isOfflineMode :: bool

text \<open>What \<open>NetInfo\<close> reports: both flags may be \<open>null\<close>.\<close>

record NetInfoState =
  ni_isConnected :: "bool option"
  ni_isInternetReachable :: "bool option"
  ni_type :: "string option"

text \<open>
  A queued thunk \<open>() => Promise<T>\<close> is known by the outcomes of its coming invocations:
  \<open>f n\<close> is how the \<open>n\<close>-th invocation from now settles, \<open>Inl\<close> a rejection with the
  thrown value and \<open>Inr\<close> a result. \<open>invoke\<close> runs it once.
\<close>

type_synonym 'v Operation = "nat \<Rightarrow> RawError + 'v"

definition invoke :: "'v Operation \<Rightarrow> (RawError + 'v) \<times> 'v Operation" where
  "invoke f = (f 0, \<lambda>n. f (Suc n))"

record 'v OfflineOperation =
  op_id :: string
  operation :: "'v Operation"
  op_context :: ErrorContext
  op_timestamp :: int
  retryCount :: nat
  maxRetries :: int

text \<open>
  The manager's fields that the queue logic reads and writes. The listener list and the
  \<open>NetInfo\<close> unsubscribe handle are callbacks and are left out.
\<close>

record 'v OfflineManager =
  offlineState :: OfflineState
  operationQueue :: "'v OfflineOperation list"
  isProcessingQueue :: bool

datatype Thrown = ThrownApp AppError | ThrownRaw RawError

text \<open>
  How the promise a call returns stands when the call's synchronous part and the awaited
  operation are over: fulfilled (\<open>None\<close> is \<open>undefined\<close>), rejected, or still pending on
  the queued operation of that id.
\<close>

datatype 'v Settled = Fulfilled "'v option" | Rejected Thrown | Pending string

datatype SettledStatus = fulfilled | rejected

datatype 'v TimerAction =
    CheckCompletion string
  | QueueTimeout string
  | Retry "'v OfflineOperation"

datatype 'v Effect =
    SetInterval nat "'v TimerAction"
  | SetTimeout nat "'v TimerAction"
  | LogMaxRetries string int
  | LogProcessed nat nat

record Options =
  queueOnOffline :: "bool option"
  opt_maxRetries :: "int option"

datatype Transition = OnlineTransition | OfflineTransition

definition initialManager :: "'v OfflineManager" where
  "initialManager =
     \<lparr>offlineState = \<lparr>isConnected = True, isInternetReachable = True, netType = None,
                       isOfflineMode = False\<rparr>,
      operationQueue = [], isProcessingQueue = False\<rparr>"

text \<open>
  \<open>handleNetworkStateChange\<close> stores the new state and says which transition handler it
  starts; the handlers are asynchronous, so their work comes as later steps.
\<close>

definition handleNetworkStateChange ::
  "'v OfflineManager \<Rightarrow> NetInfoState \<Rightarrow> 'v OfflineManager \<times> Transition option" where
  "handleNetworkStateChange om st =
     (let newOfflineState =
            \<lparr>isConnected = (case ni_isConnected st of None \<Rightarrow> False | Some b \<Rightarrow> b),
             isInternetReachable = (case ni_isInternetReachable st of None \<Rightarrow> False | Some b \<Rightarrow> b),
             netType = ni_type st,
             isOfflineMode = (ni_isConnected st \<noteq> Some True \<or> ni_isInternetReachable st \<noteq> Some True)\<rparr>;
          wasOffline = isOfflineMode (offlineState om)
      in (om\<lparr>offlineState := newOfflineState\<rparr>,
          if wasOffline \<and> \<not> isOfflineMode newOfflineState then Some OnlineTransition
          else if \<not> wasOffline \<and> isOfflineMode newOfflineState then Some OfflineTransition
          else None))"

definition createOfflineError :: "int \<Rightarrow> string \<Rightarrow> AppError" where
  "createOfflineError now msg =
     \<lparr>code = ''OFFLINE_ERROR'', message = msg, details = None, timestamp = now\<rparr>"

definition networkErrorCodes :: "string list" where
  "networkErrorCodes =
     [''NETWORK_ERROR'', ''TIMEOUT_ERROR'', ''firestore/unavailable'',
      ''firestore/deadline-exceeded'', ''auth/network-request-failed'']"

definition isNetworkError :: "RawError \<Rightarrow> bool" where
  "isNetworkError e =
     (codeIn networkErrorCodes (raw_code e)
      \<or> optIncludes (raw_message e) ''network''
      \<or> optIncludes (raw_message e) ''timeout''
      \<or> optIncludes (raw_message e) ''fetch'')"

text \<open>
  \<open>queueOperation\<close>: \<open>now\<close> is \<open>new Date()\<close> and \<open>operationId\<close> the generated id. The entry
  is pushed, and two timers are set: the completion check every second and the
  five-minute timeout.
\<close>

definition queueOperation ::
  "'v OfflineManager \<Rightarrow> int \<Rightarrow> string \<Rightarrow> 'v Operation \<Rightarrow> ErrorContext \<Rightarrow> int
     \<Rightarrow> 'v OfflineManager \<times> 'v Effect list" where
  "queueOperation om now operationId opn ctx maxR =
     (let queuedOperation =
            \<lparr>op_id = operationId, operation = opn, op_context = ctx, op_timestamp = now,
             retryCount = 0, maxRetries = maxR\<rparr>
      in (om\<lparr>operationQueue := operationQueue om @ [queuedOperation]\<rparr>,
          [SetInterval 1000 (CheckCompletion operationId),
           SetTimeout (5 * 60 * 1000) (QueueTimeout operationId)]))"

text \<open>The interval callback: it resolves the caller's promise once the entry is gone.\<close>

definition checkCompletion :: "'v OfflineManager \<Rightarrow> string \<Rightarrow> 'v Settled option" where
  "checkCompletion om operationId =
     (case find (\<lambda>x. op_id x = operationId) (operationQueue om) of
        None \<Rightarrow> Some (Fulfilled None)
      | Some op \<Rightarrow> None)"

text \<open>
  The five-minute callback: it stops the interval and, if the entry is still queued,
  rejects the caller's promise. It assigns nothing to the manager.
\<close>

definition queueTimeout ::
  "'v OfflineManager \<Rightarrow> string \<Rightarrow> 'v Settled option \<times> 'v OfflineManager" where
  "queueTimeout om operationId =
     (case find (\<lambda>x. op_id x = operationId) (operationQueue om) of
        None \<Rightarrow> (None, om)
      | Some stillQueued \<Rightarrow>
          (Some (Rejected (ThrownRaw
             \<lparr>raw_code = None, raw_message = Some ''Operation timed out while queued''\<rparr>)), om))"

definition executeWithOfflineSupport ::
  "'v OfflineManager \<Rightarrow> ErrorHandler \<Rightarrow> int \<Rightarrow> string \<Rightarrow> 'v Operation \<Rightarrow> ErrorContext \<Rightarrow> Options
     \<Rightarrow> 'v Settled \<times> 'v OfflineManager \<times> ErrorHandler \<times> 'v Effect list" where
  "executeWithOfflineSupport om eh now operationId opn ctx options =
     (let queueOnOffline' = (case queueOnOffline options of None \<Rightarrow> True | Some b \<Rightarrow> b);
          maxRetries' = (case opt_maxRetries options of None \<Rightarrow> 3 | Some n \<Rightarrow> n)
      in if \<not> isOfflineMode (offlineState om) then
           (case invoke opn of
              (Inr v, opn') \<Rightarrow> (Fulfilled (Some v), om, eh, [])
            | (Inl e, opn') \<Rightarrow>
                if queueOnOffline' \<and> isNetworkError e then
                  (case queueOperation om now operationId opn' ctx maxRetries' of
                     (om', fx) \<Rightarrow> (Pending operationId, om', eh, fx))
                else (Rejected (ThrownRaw e), om, eh, []))
         else if queueOnOffline' then
           (case queueOperation om now operationId opn ctx maxRetries' of
              (om', fx) \<Rightarrow> (Pending operationId, om', eh, fx))
         else
           (case ErrorHandler_handleError eh now
                   (asRaw (createOfflineError now ''Operation requires internet connection'')) ctx of
              (appError, eh') \<Rightarrow> (Rejected (ThrownApp appError), om, eh', [])))"

definition removeOperationFromQueue :: "'v OfflineManager \<Rightarrow> string \<Rightarrow> 'v OfflineManager" where
  "removeOperationFromQueue om operationId =
     om\<lparr>operationQueue := filter (\<lambda>op. op_id op \<noteq> operationId) (operationQueue om)\<rparr>"

definition clearQueuedOperations :: "'v OfflineManager \<Rightarrow> 'v OfflineManager" where
  "clearQueuedOperations om = om\<lparr>operationQueue := []\<rparr>"

text \<open>
  The entry handed to \<open>executeQueuedOperation\<close> is the object the queue holds, so
  \<open>operation.retryCount++\<close> is seen through the queue. \<open>mutateOperation\<close> writes the changed
  entry back at its id; an entry that has left the queue changes nowhere but in the timer
  that carries it.
\<close>

definition mutateOperation :: "'v OfflineManager \<Rightarrow> 'v OfflineOperation \<Rightarrow> 'v OfflineManager" where
  "mutateOperation om op' =
     om\<lparr>operationQueue := map (\<lambda>x. if op_id x = op_id op' then op' else x) (operationQueue om)\<rparr>"

text \<open>
  \<open>executeQueuedOperation\<close> catches every failure of the thunk, so its own promise is
  fulfilled on each path.
\<close>

definition executeQueuedOperation ::
  "'v OfflineManager \<Rightarrow> 'v OfflineOperation
     \<Rightarrow> SettledStatus \<times> 'v OfflineManager \<times> 'v Effect list" where
  "executeQueuedOperation om op =
     (case invoke (operation op) of
        (Inr v, opn') \<Rightarrow> (fulfilled, mutateOperation om (op\<lparr>operation := opn'\<rparr>), [])
      | (Inl e, opn') \<Rightarrow>
          (let op' = op\<lparr>operation := opn', retryCount := retryCount op + 1\<rparr>
           in if int (retryCount op') \<le> maxRetries op' then
                (let delay = min (1000 * 2 ^ retryCount op') 30000
                 in (fulfilled, mutateOperation om op', [SetTimeout delay (Retry op')]))
              else
                (fulfilled, removeOperationFromQueue (mutateOperation om op') (op_id op'),
                 [LogMaxRetries (op_id op') (maxRetries op')])))"

text \<open>
  \<open>processOperationQueue\<close> in its three parts: the guard and the snapshot
  (\<open>drain_begin\<close>, which returns the operations it starts), the executions, and what
  follows \<open>Promise.allSettled\<close> (\<open>drain_end\<close>).
\<close>

definition drain_begin ::
  "'v OfflineManager \<Rightarrow> 'v OfflineManager \<times> 'v OfflineOperation list" where
  "drain_begin om =
     (if isProcessingQueue om \<or> length (operationQueue om) = 0 then (om, [])
      else (om\<lparr>isProcessingQueue := True\<rparr>, operationQueue om))"

fun executeAll ::
  "'v OfflineManager \<Rightarrow> 'v OfflineOperation list
     \<Rightarrow> SettledStatus list \<times> 'v OfflineManager \<times> 'v Effect list" where
  "executeAll om [] = ([], om, [])"
| "executeAll om (op # ops) =
     (case executeQueuedOperation om op of
        (r, om1, fx) \<Rightarrow>
          (case executeAll om1 ops of
             (rs, om2, fxs) \<Rightarrow> (r # rs, om2, fx @ fxs)))"

definition drain_end ::
  "'v OfflineManager \<Rightarrow> 'v OfflineOperation list \<Rightarrow> SettledStatus list
     \<Rightarrow> 'v OfflineManager \<times> 'v Effect list" where
  "drain_end om operations results =
     (let om1 = fold (\<lambda>(result, op) m.
                        if result = fulfilled then removeOperationFromQueue m (op_id op) else m)
                     (zip results operations) om;
          successful = length (filter (\<lambda>r. r = fulfilled) results);
          failed = length (filter (\<lambda>r. r = rejected) results)
      in (om1\<lparr>isProcessingQueue := False\<rparr>,
          if successful > 0 \<or> failed > 0 then [LogProcessed successful failed] else []))"

definition processOperationQueue ::
  "'v OfflineManager \<Rightarrow> 'v OfflineManager \<times> 'v Effect list" where
  "processOperationQueue om =
     (case drain_begin om of
        (om1, []) \<Rightarrow> (om1, [])
      | (om1, op # ops) \<Rightarrow>
          (case executeAll om1 (op # ops) of
             (results, om2, fx) \<Rightarrow>
               (case drain_end om2 (op # ops) results of
                  (om3, logs) \<Rightarrow> (om3, fx @ logs))))"

text \<open>
  The manager under the event loop: the steps that can come between the start of a drain
  and its end. Each step returns the operations that a drain started in it.
\<close>

datatype 'v Event =
    DrainInvoked
  | DrainSettled "'v OfflineOperation list" "SettledStatus list"
  | Executed "'v OfflineOperation"
  | Enqueued int string "'v Operation" ErrorContext int
  | NetworkChanged NetInfoState
  | TimedOut string
  | QueueCleared

fun isDrainSettled :: "'v Event \<Rightarrow> bool" where
  "isDrainSettled (DrainSettled ops rs) = True"
| "isDrainSettled ev = False"

fun step :: "'v OfflineManager \<Rightarrow> 'v Event \<Rightarrow> 'v OfflineManager \<times> 'v OfflineOperation list" where
  "step om DrainInvoked = drain_begin om"
| "step om (DrainSettled ops rs) = (fst (drain_end om ops rs), [])"
| "step om (Executed op) = (fst (snd (executeQueuedOperation om op)), [])"
| "step om (Enqueued now operationId opn ctx maxR) =
     (fst (queueOperation om now operationId opn ctx maxR), [])"
| "step om (NetworkChanged st) = (fst (handleNetworkStateChange om st), [])"
| "step om (TimedOut operationId) = (snd (queueTimeout om operationId), [])"
| "step om QueueCleared = (clearQueuedOperations om, [])"

fun run :: "'v OfflineManager \<Rightarrow> 'v Event list \<Rightarrow> 'v OfflineManager \<times> 'v OfflineOperation list" where
  "run om [] = (om, [])"
| "run om (ev # evs) =
     (case step om ev of
        (om1, started) \<Rightarrow>
          (case run om1 evs of
             (om2, later) \<Rightarrow> (om2, started @ later)))"

text \<open>Sample data: an operation that fails on every invocation, and managers.\<close>

definition networkDown :: RawError where
  "networkDown = \<lparr>raw_code = Some ''NETWORK_ERROR'', raw_message = Some ''request failed''\<rparr>"

definition alwaysFails :: "unit Operation" where
  "alwaysFails = (\<lambda>n. Inl networkDown)"

definition offlineManager0 :: "unit OfflineManager" where
  "offlineManager0 =
     \<lparr>offlineState = \<lparr>isConnected = False, isInternetReachable = False, netType = None,
                       isOfflineMode = True\<rparr>,
      operationQueue = [], isProcessingQueue = False\<rparr>"

definition failingEntry :: "unit OfflineOperation" where
  "failingEntry =
     \<lparr>op_id = ''op_1'', operation = alwaysFails, op_context = sampleContext, op_timestamp = 0,
      retryCount = 0, maxRetries = 3\<rparr>"

definition managerWithFailing :: "unit OfflineManager" where
  "managerWithFailing = initialManager\<lparr>operationQueue := [failingEntry]\<rparr>"

definition netDown :: NetInfoState where
  "netDown = \<lparr>ni_isConnected = Some False, ni_isInternetReachable = Some False, ni_type = None\<rparr>"

definition netUp :: NetInfoState where
  "netUp = \<lparr>ni_isConnected = Some True, ni_isInternetReachable = Some True,
            ni_type = Some ''wifi''\<rparr>"

definition noQueueOptions :: Options where
  "noQueueOptions = \<lparr>queueOnOffline = Some False, opt_maxRetries = None\<rparr>"

definition emptyHandler :: ErrorHandler where
  "emptyHandler = \<lparr>errorQueue = []\<rparr>"

section \<open>Facts about the request lifecycle\<close>



lemma next_fault_healthy:
  assumes "healthy (Suc n) fs"
  shows "fst (next_fault fs) = None"
    and "docs (snd (next_fault fs)) = docs fs"
    and "serverTime (snd (next_fault fs)) = serverTime fs"
    and "healthy n (snd (next_fault fs))"
  using assms by (auto simp: healthy_def next_fault_def split: list.splits)


lemma getDoc_healthy:
  assumes "healthy (Suc n) fs"
  shows "getDoc fs i = (Inr (docs fs i), snd (next_fault fs))"
  using next_fault_healthy[OF assms]
  by (cases "next_fault fs") (simp add: getDoc_def)

lemma getById_healthy:
  assumes "healthy (Suc n) fs" and "docs fs i = Some d"
  shows "getById fs i =
           (\<lparr>success = True, data = Some (RequestDoc.extend d \<lparr>id' = i\<rparr>), error = None\<rparr>,
            snd (next_fault fs))"
  using assms by (simp add: getById_def getDoc_healthy docToEntity_def)

lemma updateDoc_healthy:
  assumes "healthy (Suc n) fs" and "docs fs i = Some d"
  shows "updateDoc fs i u =
           (Inr (), (snd (next_fault fs))\<lparr>docs := (docs fs)(i \<mapsto> applyUpdate u d)\<rparr>)"
  using next_fault_healthy[OF assms(1)] assms(2)
  by (cases "next_fault fs") (simp add: updateDoc_def)

lemma healthy_docs_upd [simp]: "healthy n (fs\<lparr>docs := m\<rparr>) = healthy n fs"
  by (simp add: healthy_def)

lemma update_healthy:
  fixes u :: RequestUpdate
  assumes "healthy (Suc (Suc n)) fs" and "docs fs i = Some d"
  defines "d' \<equiv> applyUpdate (u\<lparr>u_updatedAt := Some (serverTime fs)\<rparr>) d"
  shows "fst (update fs i u) = \<lparr>success = True, data = Some (RequestDoc.extend d' \<lparr>id' = i\<rparr>), error = None\<rparr>"
    and "docs (snd (update fs i u)) = (docs fs)(i \<mapsto> d')"
    and "serverTime (snd (update fs i u)) = serverTime fs"
    and "healthy n (snd (update fs i u))"
proof -
  let ?fs1 = "(snd (next_fault fs))\<lparr>docs := (docs fs)(i \<mapsto> d')\<rparr>"
  have h1: "healthy (Suc n) ?fs1"
    using next_fault_healthy(4)[OF assms(1)] by simp
  have u: "updateDoc fs i (entityToDoc fs u) = (Inr (), ?fs1)"
    using updateDoc_healthy[OF assms(1,2)] by (simp add: entityToDoc_def d'_def)
  have g: "getDoc ?fs1 i = (Inr (Some d'), snd (next_fault ?fs1))"
    using getDoc_healthy[OF h1] by simp
  have r: "update fs i u = (\<lparr>success = True, data = Some (RequestDoc.extend d' \<lparr>id' = i\<rparr>), error = None\<rparr>, snd (next_fault ?fs1))"
    by (simp add: update_def u g docToEntity_def)
  show "fst (update fs i u) = \<lparr>success = True, data = Some (RequestDoc.extend d' \<lparr>id' = i\<rparr>), error = None\<rparr>"
    by (simp add: r)
  show "docs (snd (update fs i u)) = (docs fs)(i \<mapsto> d')"
    using next_fault_healthy(2)[OF h1] by (simp add: r)
  show "serverTime (snd (update fs i u)) = serverTime fs"
    using next_fault_healthy(3)[OF h1] next_fault_healthy(3)[OF assms(1)] by (simp add: r)
  show "healthy n (snd (update fs i u))"
    using next_fault_healthy(4)[OF h1] by (simp add: r)
qed





lemma addDoc_healthy:
  assumes "healthy (Suc n) fs"
  shows "addDoc fs nid dd = (Inr nid, (snd (next_fault fs))\<lparr>docs := (docs fs)(nid \<mapsto> dd)\<rparr>)"
  using next_fault_healthy[OF assms]
  by (cases "next_fault fs") (simp add: addDoc_def)

lemma create_healthy:
  fixes entityData :: RequestData
  assumes "healthy (Suc (Suc n)) fs"
  defines "dd \<equiv> RequestData.extend entityData \<lparr>createdAt = serverTime fs, updatedAt = serverTime fs\<rparr>"
  shows "docs (snd (create fs nid entityData)) = (docs fs)(nid \<mapsto> dd)"
    and "serverTime (snd (create fs nid entityData)) = serverTime fs"
    and "healthy n (snd (create fs nid entityData))"
proof -
  let ?fs1 = "(snd (next_fault fs))\<lparr>docs := (docs fs)(nid \<mapsto> dd)\<rparr>"
  have h1: "healthy (Suc n) ?fs1"
    using next_fault_healthy(4)[OF assms(1)] by simp
  have g: "getDoc ?fs1 nid = (Inr (Some dd), snd (next_fault ?fs1))"
    using getDoc_healthy[OF h1] by simp
  have r: "snd (create fs nid entityData) = snd (next_fault ?fs1)"
    by (simp add: create_def addDoc_healthy[OF assms(1)] g dd_def[symmetric])
  show "docs (snd (create fs nid entityData)) = (docs fs)(nid \<mapsto> dd)"
    using next_fault_healthy(2)[OF h1] by (simp add: r)
  show "serverTime (snd (create fs nid entityData)) = serverTime fs"
    using next_fault_healthy(3)[OF h1] next_fault_healthy(3)[OF assms(1)] by (simp add: r)
  show "healthy n (snd (create fs nid entityData))"
    using next_fault_healthy(4)[OF h1] by (simp add: r)
qed

lemma checkRequestExpiry_fires:
  assumes "healthy (Suc (Suc (Suc n))) fs" and "docs fs i = Some d"
    and "timestampBeforeDate (Timestamp_fromMillis (expiresAt d)) now" and "status d = pending"
  shows "docs (snd (checkRequestExpiry fs now i)) = (docs fs)(i \<mapsto> d\<lparr>status := expired, updatedAt := serverTime fs\<rparr>)"
proof -
  let ?fs1 = "snd (next_fault fs)"
  let ?u = "\<lparr>u_approvals = None, u_status = Some expired, u_expiresAt = None, u_updatedAt = None\<rparr>"
  have h1: "healthy (Suc (Suc n)) ?fs1" and d1: "docs ?fs1 i = Some d" and t1: "serverTime ?fs1 = serverTime fs"
    using next_fault_healthy[OF assms(1)] assms(2) by simp_all
  have e: "checkRequestExpiry fs now i = update ?fs1 i ?u"
    using assms(3,4) by (simp add: checkRequestExpiry_def getById_healthy[OF assms(1,2)] RequestDoc.defs)
  have a: "applyUpdate (?u\<lparr>u_updatedAt := Some (serverTime ?fs1)\<rparr>) d = d\<lparr>status := expired, updatedAt := serverTime fs\<rparr>"
    by (simp add: applyUpdate_def t1)
  show ?thesis
    using update_healthy(2)[OF h1 d1, where u="?u"] next_fault_healthy(2)[OF assms(1)] by (simp only: e a)
qed








text \<open>
  Claim C3, evaluated at a present-day input: a request created by \<open>createRequest\<close> with
  the default expiry of 24 hours is stored as \<open>pending\<close> with \<open>expiresAt\<close> a day ahead,
  and \<open>checkRequestExpiry\<close> called at the very instant of its creation stores
  \<open>expired\<close>, although its expiry time has not been reached. The test compares the
  seconds of the unconverted \<open>Timestamp\<close>, counted from the year 1, with milliseconds.
\<close>

theorem fresh_request_expires_at_once:
  "map_option status
     (docs (snd (createRequest emptyStore today ''r1'' ''fam1'' ''kid1'' extra_time ''game''
                   (Some 30) (Some ''please'') 24)) ''r1'')
     = Some pending
   \<and> map_option expiresAt
        (docs (snd (createRequest emptyStore today ''r1'' ''fam1'' ''kid1'' extra_time ''game''
                      (Some 30) (Some ''please'') 24)) ''r1'')
       = Some (today + 86400000)
   \<and> map_option status
        (docs (snd (checkRequestExpiry
                      (snd (createRequest emptyStore today ''r1'' ''fam1'' ''kid1'' extra_time ''game''
                              (Some 30) (Some ''please'') 24))
                      today ''r1'')) ''r1'')
       = Some expired"
proof -
  let ?data = "\<lparr>familyId = ''fam1'', requesterId = ''kid1'', rtype = extra_time, target = ''game'',
        duration = Some 30, reason = Some ''please'', status = pending, approvals = [],
        expiresAt = today + 24 * 60 * 60 * 1000\<rparr>"
  let ?dd = "RequestData.extend ?data \<lparr>createdAt = serverTime emptyStore, updatedAt = serverTime emptyStore\<rparr>"
  let ?fs1 = "snd (create emptyStore ''r1'' ?data)"
  have h5: "healthy (Suc (Suc (Suc (Suc (Suc 0))))) emptyStore"
    by (simp add: emptyStore_def healthy_def)
  note cr = create_healthy[OF h5, where nid="''r1''" and entityData="?data"]
  have c: "createRequest emptyStore today ''r1'' ''fam1'' ''kid1'' extra_time ''game''
                   (Some 30) (Some ''please'') 24 = create emptyStore ''r1'' ?data"
    by (simp add: createRequest_def)
  have d1: "docs ?fs1 ''r1'' = Some ?dd"
    using cr(1) by simp
  have st: "status ?dd = pending" and ex: "expiresAt ?dd = today + 86400000"
    by (simp_all add: RequestData.defs)
  have due: "timestampBeforeDate (Timestamp_fromMillis (expiresAt ?dd)) today"
    by (simp only: ex) (simp add: timestampBeforeDate_def Timestamp_fromMillis_def today_def)
  have "docs (snd (checkRequestExpiry ?fs1 today ''r1''))
          = (docs ?fs1)(''r1'' \<mapsto> ?dd\<lparr>status := expired, updatedAt := serverTime ?fs1\<rparr>)"
    by (rule checkRequestExpiry_fires[OF cr(3) d1 due st])
  then have "map_option status (docs (snd (checkRequestExpiry ?fs1 today ''r1'')) ''r1'') = Some expired"
    by simp
  moreover have "map_option status (docs ?fs1 ''r1'') = Some pending"
    by (simp only: d1 option.map st)
  moreover have "map_option expiresAt (docs ?fs1 ''r1'') = Some (today + 86400000)"
    by (simp only: d1 option.map ex)
  ultimately show ?thesis
    by (simp only: c simp_thms)
qed

section \<open>Facts about the error classifier and the retry policy\<close>

text \<open>
  Claim C4. \<open>shouldRetry\<close> holds of an error exactly when its code is one of
  \<open>RETRYABLE_ERROR\<close>, \<open>NETWORK_ERROR\<close>, \<open>TIMEOUT_ERROR\<close>; in particular it is false of
  an error whose code is \<open>UNKNOWN_ERROR\<close>.
\<close>

theorem shouldRetry_exactly_retryable_codes:
  "shouldRetry e = (code e \<in> {''RETRYABLE_ERROR'', ''NETWORK_ERROR'', ''TIMEOUT_ERROR''})
   \<and> \<not> shouldRetry (e\<lparr>code := ''UNKNOWN_ERROR''\<rparr>)"
  by (simp add: shouldRetry_def)

lemma firestore_prefix_not_auth:
  "optStartsWith c ''firestore/'' \<Longrightarrow> \<not> optStartsWith c ''auth/''"
  by (cases c; simp add: optStartsWith_def; rename_tac s; case_tac s; simp)

text \<open>
  Claim C9, as stated, fails: for the raw failure \<open>firestore/unavailable\<close> the classifier
  returns the code \<open>FIRESTORE_ERROR\<close>, which is not \<open>STORAGE_ERROR\<close>.
\<close>

theorem firestore_code_counterexample:
  "optStartsWith (raw_code firestoreUnavailable) ''firestore/''
   \<and> code (categorizeError 0 firestoreUnavailable sampleContext) = ''FIRESTORE_ERROR''
   \<and> code (categorizeError 0 firestoreUnavailable sampleContext) \<noteq> ''STORAGE_ERROR''"
  by (simp add: categorizeError_def firestoreUnavailable_def optStartsWith_def)

text \<open>
  Claim C9, amended. The classifier's code is always one of the nine codes it can
  assign, and for every raw failure whose code starts with \<open>firestore/\<close> it is
  \<open>FIRESTORE_ERROR\<close>, the source's name for the database class.
\<close>

theorem firestore_code_amended:
  "code (categorizeError now e ctx)
     \<in> {''AUTH_ERROR'', ''FIRESTORE_ERROR'', ''NETWORK_ERROR'', ''TIMEOUT_ERROR'', ''VALIDATION_ERROR'',
        ''PERMISSION_ERROR'', ''BUSINESS_ERROR'', ''RETRYABLE_ERROR'', ''UNKNOWN_ERROR''}
   \<and> (optStartsWith (raw_code e) ''firestore/'' \<longrightarrow>
        code (categorizeError now e ctx) = ''FIRESTORE_ERROR'')"
proof -
  have "optStartsWith (raw_code e) ''firestore/'' \<longrightarrow>
        code (categorizeError now e ctx) = ''FIRESTORE_ERROR''"
    using firestore_prefix_not_auth[of "raw_code e"] by (simp add: categorizeError_def)
  moreover have "code (categorizeError now e ctx)
     \<in> {''AUTH_ERROR'', ''FIRESTORE_ERROR'', ''NETWORK_ERROR'', ''TIMEOUT_ERROR'', ''VALIDATION_ERROR'',
        ''PERMISSION_ERROR'', ''BUSINESS_ERROR'', ''RETRYABLE_ERROR'', ''UNKNOWN_ERROR''}"
    unfolding categorizeError_def by (simp only: if_distrib[of code] AppError.simps) simp
  ultimately show ?thesis by blast
qed

theorem firestore_code_amended_witness:
  "optStartsWith (raw_code firestoreUnavailable) ''firestore/''
   \<and> code (categorizeError 5 firestoreUnavailable sampleContext) = ''FIRESTORE_ERROR''"
  using firestore_code_amended[of 5 firestoreUnavailable sampleContext]
  by (simp add: firestoreUnavailable_def optStartsWith_def)

section \<open>Facts about the offline manager\<close>

text \<open>
  Claim C5, evaluated at its input: the manager is offline and the call is made with
  \<open>queueOnOffline = false\<close>. The call is rejected at once and the operation queue is
  unchanged, but the rejection carries the code \<open>UNKNOWN_ERROR\<close>: the \<open>OFFLINE_ERROR\<close>
  that \<open>createOfflineError\<close> builds goes through \<open>handleError\<close>, whose classifier has no
  case for it.
\<close>

theorem offline_no_queue_rejects_unknown:
  "isOfflineMode (offlineState offlineManager0)
   \<and> queueOnOffline noQueueOptions = Some False
   \<and> fst (executeWithOfflineSupport offlineManager0 emptyHandler 7 ''op_1'' alwaysFails
             sampleContext noQueueOptions)
       = Rejected (ThrownApp
           \<lparr>code = ''UNKNOWN_ERROR'', message = ''An unexpected error occurred'',
            details = Some \<lparr>raw_code = Some ''OFFLINE_ERROR'',
                            raw_message = Some ''Operation requires internet connection''\<rparr>,
            timestamp = 7\<rparr>)
   \<and> operationQueue (fst (snd (executeWithOfflineSupport offlineManager0 emptyHandler 7 ''op_1''
                                 alwaysFails sampleContext noQueueOptions)))
       = operationQueue offlineManager0"
  by (simp add: executeWithOfflineSupport_def offlineManager0_def noQueueOptions_def Let_def
        ErrorHandler_handleError_def categorizeError_def asRaw_def createOfflineError_def
        optStartsWith_def optIncludes_def isRetryableError_def codeIn_def retryableCodes_def)

lemma offline_no_queue_general:
  assumes "isOfflineMode (offlineState om)" and "queueOnOffline options = Some False"
  shows "\<exists>e. fst (executeWithOfflineSupport om eh now i opn ctx options) = Rejected (ThrownApp e)
             \<and> code e = ''UNKNOWN_ERROR''"
    and "fst (snd (executeWithOfflineSupport om eh now i opn ctx options)) = om"
  using assms
  by (simp_all add: executeWithOfflineSupport_def Let_def
        ErrorHandler_handleError_def categorizeError_def asRaw_def createOfflineError_def
        optStartsWith_def optIncludes_def isRetryableError_def codeIn_def retryableCodes_def)

text \<open>
  Claim C6, as stated, fails: when the five-minute timer of a queued operation fires,
  the caller's promise is rejected, and the entry is still in the queue afterwards.
\<close>

theorem queue_timeout_counterexample:
  "fst (queueTimeout (fst (queueOperation offlineManager0 0 ''op_1'' alwaysFails sampleContext 3)) ''op_1'')
     = Some (Rejected (ThrownRaw
         \<lparr>raw_code = None, raw_message = Some ''Operation timed out while queued''\<rparr>))
   \<and> map op_id (operationQueue (snd (queueTimeout
         (fst (queueOperation offlineManager0 0 ''op_1'' alwaysFails sampleContext 3)) ''op_1'')))
     = [''op_1'']"
  by (simp add: queueTimeout_def queueOperation_def offlineManager0_def)

lemma find_op_id:
  "(\<exists>op \<in> set ops. op_id op = i) \<Longrightarrow> \<exists>op. find (\<lambda>x. op_id x = i) ops = Some op"
  by (induction ops) auto

text \<open>
  Claim C6, amended. \<open>queueOperation\<close> sets a timer of 300000 ms for the entry. When it
  fires, the manager is left as it was; if an entry of that id is still queued, the
  caller's promise is rejected with \<open>Operation timed out while queued\<close>, whatever the
  entry's retry count and ceiling are, and otherwise nothing is settled.
\<close>

theorem queue_timeout_amended:
  "snd (queueOperation om now i opn ctx maxR)
     = [SetInterval 1000 (CheckCompletion i), SetTimeout 300000 (QueueTimeout i)]
   \<and> snd (queueTimeout om i) = om
   \<and> ((\<exists>op \<in> set (operationQueue om). op_id op = i) \<longrightarrow>
        fst (queueTimeout om i)
          = Some (Rejected (ThrownRaw
              \<lparr>raw_code = None, raw_message = Some ''Operation timed out while queued''\<rparr>)))
   \<and> (\<not> (\<exists>op \<in> set (operationQueue om). op_id op = i) \<longrightarrow> fst (queueTimeout om i) = None)"
proof -
  have a: "snd (queueOperation om now i opn ctx maxR)
     = [SetInterval 1000 (CheckCompletion i), SetTimeout 300000 (QueueTimeout i)]"
    by (simp add: queueOperation_def)
  have b: "snd (queueTimeout om i) = om"
    by (simp add: queueTimeout_def split: option.splits)
  have c: "(\<exists>op \<in> set (operationQueue om). op_id op = i) \<longrightarrow>
        fst (queueTimeout om i)
          = Some (Rejected (ThrownRaw
              \<lparr>raw_code = None, raw_message = Some ''Operation timed out while queued''\<rparr>))"
  proof
    assume "\<exists>op \<in> set (operationQueue om). op_id op = i"
    then obtain op where "find (\<lambda>x. op_id x = i) (operationQueue om) = Some op"
      using find_op_id by blast
    then show "fst (queueTimeout om i)
          = Some (Rejected (ThrownRaw
              \<lparr>raw_code = None, raw_message = Some ''Operation timed out while queued''\<rparr>))"
      by (simp add: queueTimeout_def)
  qed
  have d: "\<not> (\<exists>op \<in> set (operationQueue om). op_id op = i) \<longrightarrow> fst (queueTimeout om i) = None"
  proof
    assume "\<not> (\<exists>op \<in> set (operationQueue om). op_id op = i)"
    then have "find (\<lambda>x. op_id x = i) (operationQueue om) = None"
      by (simp add: find_None_iff)
    then show "fst (queueTimeout om i) = None"
      by (simp add: queueTimeout_def)
  qed
  from a b c d show ?thesis by blast
qed

theorem queue_timeout_amended_witness:
  "(\<exists>op \<in> set (operationQueue (managerWithFailing)). op_id op = ''op_1'')
   \<and> \<not> (\<exists>op \<in> set (operationQueue (managerWithFailing)). op_id op = ''op_2'')
   \<and> queueTimeout managerWithFailing ''op_1''
       = (Some (Rejected (ThrownRaw
            \<lparr>raw_code = None, raw_message = Some ''Operation timed out while queued''\<rparr>)),
          managerWithFailing)
   \<and> queueTimeout managerWithFailing ''op_2'' = (None, managerWithFailing)"
proof -
  have a: "\<exists>op \<in> set (operationQueue (managerWithFailing)). op_id op = ''op_1''"
    by (simp add: managerWithFailing_def failingEntry_def)
  have b: "\<not> (\<exists>op \<in> set (operationQueue (managerWithFailing)). op_id op = ''op_2'')"
    by (simp add: managerWithFailing_def failingEntry_def)
  show ?thesis
    using queue_timeout_amended[of managerWithFailing 0 "''op_1''" alwaysFails sampleContext 3]
          queue_timeout_amended[of managerWithFailing 0 "''op_2''" alwaysFails sampleContext 3] a b
    by (simp add: prod_eq_iff)
qed

text \<open>
  Claim C7, evaluated at a queue holding one entry whose operation fails, with
  \<open>maxRetries = 3\<close>. The drain executes it, counts one retry and schedules the next try
  after \<open>min (1000 * 2 ^ 1) 30000 = 2000\<close> ms, as the claim says; but the entry is gone
  from the queue when the drain ends, although it neither succeeded nor exceeded its
  retries, and the drain reports it as successful.
\<close>

theorem drain_drops_failed_entry:
  "operationQueue managerWithFailing = [failingEntry]
   \<and> fst (invoke (operation failingEntry)) = Inl networkDown
   \<and> processOperationQueue managerWithFailing
       = (initialManager,
          [SetTimeout 2000 (Retry (failingEntry\<lparr>retryCount := 1\<rparr>)), LogProcessed 1 0])"
proof -
  let ?om1 = "managerWithFailing\<lparr>isProcessingQueue := True\<rparr>"
  let ?op' = "failingEntry\<lparr>retryCount := Suc 0\<rparr>"
  let ?om2 = "?om1\<lparr>operationQueue := [?op']\<rparr>"
  have q: "operationQueue managerWithFailing = [failingEntry]"
    by (simp add: managerWithFailing_def)
  have i: "invoke (operation failingEntry) = (Inl networkDown, alwaysFails)"
    by (simp add: invoke_def failingEntry_def alwaysFails_def)
  have b: "drain_begin managerWithFailing = (?om1, [failingEntry])"
    by (simp add: drain_begin_def managerWithFailing_def initialManager_def)
  have e: "executeQueuedOperation ?om1 failingEntry
             = (fulfilled, ?om2, [SetTimeout 2000 (Retry ?op')])"
    by (simp add: executeQueuedOperation_def i mutateOperation_def q Let_def)
       (simp add: failingEntry_def)
  have a: "executeAll ?om1 [failingEntry] = ([fulfilled], ?om2, [SetTimeout 2000 (Retry ?op')])"
    by (simp add: e)
  have d: "drain_end ?om2 [failingEntry] [fulfilled] = (initialManager, [LogProcessed (Suc 0) 0])"
    by (simp add: drain_end_def removeOperationFromQueue_def managerWithFailing_def
          initialManager_def failingEntry_def)
  have "processOperationQueue managerWithFailing
       = (initialManager, [SetTimeout 2000 (Retry ?op'), LogProcessed (Suc 0) 0])"
    by (simp add: processOperationQueue_def b e d)
  then show ?thesis
    by (simp add: q i)
qed

lemma drain_begin_started:
  assumes "drain_begin om = (om1, op # ops)"
  shows "isProcessingQueue om1"
  using assms by (auto simp: drain_begin_def split: if_splits)

lemma drain_begin_busy:
  assumes "isProcessingQueue om"
  shows "drain_begin om = (om, [])"
  using assms by (simp add: drain_begin_def)

lemma mutateOperation_flag [simp]:
  "isProcessingQueue (mutateOperation om op) = isProcessingQueue om"
  by (simp add: mutateOperation_def)

lemma removeOperationFromQueue_flag [simp]:
  "isProcessingQueue (removeOperationFromQueue om i) = isProcessingQueue om"
  by (simp add: removeOperationFromQueue_def)

lemma executeQueuedOperation_flag:
  "isProcessingQueue (fst (snd (executeQueuedOperation om op))) = isProcessingQueue om"
  by (simp add: executeQueuedOperation_def Let_def split: prod.splits sum.splits)

lemma step_while_draining:
  assumes "isProcessingQueue om" and "\<not> isDrainSettled ev"
  shows "isProcessingQueue (fst (step om ev)) \<and> snd (step om ev) = []"
proof (cases ev)
  case DrainInvoked
  then show ?thesis using assms(1) by (simp add: drain_begin_busy)
next
  case (DrainSettled ops rs)
  then show ?thesis using assms(2) by simp
next
  case (Executed op)
  then show ?thesis using assms(1) by (simp add: executeQueuedOperation_flag)
next
  case (Enqueued now i opn ctx maxR)
  then show ?thesis using assms(1) by (simp add: queueOperation_def)
next
  case (NetworkChanged st)
  then show ?thesis using assms(1) by (simp add: handleNetworkStateChange_def Let_def)
next
  case (TimedOut i)
  then show ?thesis using assms(1) by (simp add: queueTimeout_def split: option.splits)
next
  case QueueCleared
  then show ?thesis using assms(1) by (simp add: clearQueuedOperations_def)
qed

lemma run_while_draining:
  assumes "isProcessingQueue om" and "\<forall>ev \<in> set evs. \<not> isDrainSettled ev"
  shows "isProcessingQueue (fst (run om evs)) \<and> snd (run om evs) = []"
  using assms
proof (induction evs arbitrary: om)
  case Nil
  then show ?case by simp
next
  case (Cons ev evs)
  have s: "isProcessingQueue (fst (step om ev))" "snd (step om ev) = []"
    using step_while_draining[of om ev] Cons.prems by simp_all
  have "isProcessingQueue (fst (run (fst (step om ev)) evs)) \<and> snd (run (fst (step om ev)) evs) = []"
    using Cons.IH[OF s(1)] Cons.prems(2) by simp
  then show ?case
    using s(2) by (simp add: case_prod_beta)
qed

text \<open>
  Claim C8. Once a drain has passed the guard and started its operations, and as long as
  that drain has not reached its end, whatever else happens (network changes, further
  drain invocations, executions, enqueues, timeouts, clearing the queue): the guard flag
  stays set, no drain
  invocation among those steps starts any operation, and one more invocation returns
  the manager as it is, starting nothing.
\<close>

theorem drain_is_single_flight:
  assumes "drain_begin om = (om1, op # ops)"
    and "\<forall>ev \<in> set evs. \<not> isDrainSettled ev"
  shows "isProcessingQueue (fst (run om1 evs))
       \<and> snd (run om1 evs) = []
       \<and> drain_begin (fst (run om1 evs)) = (fst (run om1 evs), [])"
  using run_while_draining[OF drain_begin_started[OF assms(1)] assms(2)]
  by (simp add: drain_begin_busy)

theorem drain_is_single_flight_witness:
  "drain_begin managerWithFailing
     = (managerWithFailing\<lparr>isProcessingQueue := True\<rparr>, [failingEntry])
   \<and> snd (run (managerWithFailing\<lparr>isProcessingQueue := True\<rparr>)
             [NetworkChanged netDown, NetworkChanged netUp, DrainInvoked,
              Enqueued 5 ''op_2'' alwaysFails sampleContext 3, DrainInvoked]) = []"
proof -
  have b: "drain_begin managerWithFailing
     = (managerWithFailing\<lparr>isProcessingQueue := True\<rparr>, [failingEntry])"
    by (simp add: drain_begin_def managerWithFailing_def initialManager_def)
  have e: "\<forall>ev \<in> set [NetworkChanged netDown, NetworkChanged netUp, DrainInvoked,
                    Enqueued 5 ''op_2'' alwaysFails sampleContext 3, DrainInvoked].
         \<not> isDrainSettled ev"
    by simp
  show ?thesis
    using drain_is_single_flight[OF b e] b by blast
qed

lemma executeQueuedOperation_fulfilled: "fst (executeQueuedOperation om op) = fulfilled"
  by (simp add: executeQueuedOperation_def Let_def split: prod.splits sum.splits)

lemma executeAll_fulfilled: "fst (executeAll om ops) = replicate (length ops) fulfilled"
proof (induction ops arbitrary: om)
  case Nil
  then show ?case by simp
next
  case (Cons op ops)
  show ?case
    using executeQueuedOperation_fulfilled[of om op]
          Cons.IH[of "fst (snd (executeQueuedOperation om op))"]
    by (simp add: case_prod_beta)
qed

lemma mutateOperation_ids:
  "op_id ` set (operationQueue (mutateOperation om op)) = op_id ` set (operationQueue om)"
proof -
  have "map op_id (operationQueue (mutateOperation om op)) = map op_id (operationQueue om)"
    by (simp add: mutateOperation_def)
  then show ?thesis
    by (metis set_map)
qed

lemma removeOperationFromQueue_ids:
  "op_id ` set (operationQueue (removeOperationFromQueue m i))
     \<subseteq> op_id ` set (operationQueue m)"
  by (auto simp: removeOperationFromQueue_def)

lemma executeQueuedOperation_ids:
  "op_id ` set (operationQueue (fst (snd (executeQueuedOperation om op))))
     \<subseteq> op_id ` set (operationQueue om)"
proof -
  obtain res opn' where i: "invoke (operation op) = (res, opn')"
    by (cases "invoke (operation op)")
  show ?thesis
  proof (cases res)
    case (Inr v)
    then show ?thesis
      by (simp add: executeQueuedOperation_def i mutateOperation_ids)
  next
    case (Inl e)
    let ?op' = "op\<lparr>operation := opn', retryCount := retryCount op + 1\<rparr>"
    show ?thesis
    proof (cases "int (retryCount ?op') \<le> maxRetries ?op'")
      case True
      then have "fst (snd (executeQueuedOperation om op)) = mutateOperation om ?op'"
        by (simp add: executeQueuedOperation_def i Inl Let_def)
      then show ?thesis
        by (simp add: mutateOperation_ids)
    next
      case False
      then have "fst (snd (executeQueuedOperation om op))
                   = removeOperationFromQueue (mutateOperation om ?op') (op_id ?op')"
        by (simp add: executeQueuedOperation_def i Inl Let_def)
      then show ?thesis
        using removeOperationFromQueue_ids[of "mutateOperation om ?op'" "op_id ?op'"]
        by (simp add: mutateOperation_ids)
    qed
  qed
qed

lemma executeAll_ids:
  "op_id ` set (operationQueue (fst (snd (executeAll om ops))))
     \<subseteq> op_id ` set (operationQueue om)"
proof (induction ops arbitrary: om)
  case Nil
  then show ?case by simp
next
  case (Cons op ops)
  have "op_id ` set (operationQueue (fst (snd (executeAll (fst (snd (executeQueuedOperation om op))) ops))))
          \<subseteq> op_id ` set (operationQueue (fst (snd (executeQueuedOperation om op))))"
    by (rule Cons.IH)
  also have "\<dots> \<subseteq> op_id ` set (operationQueue om)"
    by (rule executeQueuedOperation_ids)
  finally show ?case
    by (simp add: case_prod_beta)
qed

lemma fold_remove_all:
  "operationQueue
     (fold (\<lambda>(result, op) m. if result = fulfilled then removeOperationFromQueue m (op_id op) else m)
           (zip (replicate (length ops) fulfilled) ops) om)
   = filter (\<lambda>x. op_id x \<notin> op_id ` set ops) (operationQueue om)"
proof (induction ops arbitrary: om)
  case Nil
  then show ?case by simp
next
  case (Cons op ops)
  show ?case
    by (simp add: Cons.IH removeOperationFromQueue_def)
qed

text \<open>
  The same holds of every queue: since no execution is ever reported as rejected, a drain
  that starts removes every entry of its snapshot, whatever the outcomes were.
\<close>

lemma drain_empties_queue:
  assumes "\<not> isProcessingQueue om"
  shows "operationQueue (fst (processOperationQueue om)) = []"
proof (cases "operationQueue om")
  case Nil
  then show ?thesis by (simp add: processOperationQueue_def drain_begin_def)
next
  case (Cons op ops)
  let ?om1 = "om\<lparr>isProcessingQueue := True\<rparr>"
  let ?snap = "op # ops"
  let ?om2 = "fst (snd (executeAll ?om1 ?snap))"
  have b: "drain_begin om = (?om1, ?snap)"
    using assms Cons by (simp add: drain_begin_def)
  have rs: "fst (executeAll ?om1 ?snap) = replicate (length ?snap) fulfilled"
    by (rule executeAll_fulfilled)
  have ids: "op_id ` set (operationQueue ?om2) \<subseteq> op_id ` set ?snap"
    using executeAll_ids[of ?om1 ?snap] Cons by simp
  have "operationQueue (fst (drain_end ?om2 ?snap (replicate (length ?snap) fulfilled)))
          = filter (\<lambda>x. op_id x \<notin> op_id ` set ?snap) (operationQueue ?om2)"
    using fold_remove_all[of ?snap ?om2] by (simp add: drain_end_def Let_def)
  also have "\<dots> = []"
    using ids by (auto simp: filter_empty_conv)
  finally have e: "operationQueue (fst (drain_end ?om2 ?snap (fst (executeAll ?om1 ?snap)))) = []"
    by (simp only: rs)
  show ?thesis
    using e by (simp add: processOperationQueue_def b case_prod_beta del: executeAll.simps)
qed

section \<open>Facts about the entity store\<close>

lemma handleError_structured [simp]: "structured (BaseService_handleError e)"
  by (simp add: structured_def BaseService_handleError_def)

lemma handleError_surfaced:
  "BaseService_handleError e = \<lparr>success = False, data = None, error = Some (surfaced e)\<rparr>"
  by (simp add: BaseService_handleError_def handleError_appError_def surfaced_def)

lemma create_structured: "structured (fst (create fs nid d))"
  by (simp add: create_def split: prod.splits sum.splits) (simp add: structured_def)

lemma getById_structured: "structured (fst (getById fs i))"
  by (simp add: getById_def split: prod.splits sum.splits option.splits) (simp add: structured_def)

lemma update_structured: "structured (fst (update fs i u))"
  by (simp add: update_def split: prod.splits sum.splits) (simp add: structured_def)

lemma delete_structured: "structured (fst (delete fs i))"
  by (simp add: delete_def split: prod.splits sum.splits) (simp add: structured_def)

lemma query_structured: "structured (fst (query engine fs q))"
  by (simp add: query_def split: prod.splits sum.splits) (simp add: structured_def)

lemma next_fault_throws:
  "faults fs = Some e # rest \<Longrightarrow> next_fault fs = (Some e, fs\<lparr>faults := rest\<rparr>)"
  by (simp add: next_fault_def)

text \<open>
  Claim C10, as stated, fails: when the database call of \<open>create\<close> throws
  \<open>firestore/unavailable\<close>, the error string returned is the thrown value's own message,
  not the message the Error Classifier gives for it.
\<close>

theorem store_surfaces_raw_message_counterexample:
  "error (fst (create brokenStore ''r1'' sampleData)) = raw_message firestoreUnavailable
   \<and> error (fst (create brokenStore ''r1'' sampleData))
       \<noteq> Some (message (categorizeError 0 firestoreUnavailable sampleContext))"
  by (simp add: create_def addDoc_def next_fault_def brokenStore_def emptyStore_def
        BaseService_handleError_def handleError_appError_def orElse_def firestoreUnavailable_def
        categorizeError_def optStartsWith_def firestoreMessage_def)

text \<open>
  Claim C10, amended. Each of \<open>create\<close>, \<open>getById\<close>, \<open>update\<close>, \<open>delete\<close>, \<open>query\<close>
  returns a structured result on every database state, and when its database call throws
  it returns the failure whose error string is the thrown value's message if that is
  non-empty, and \<open>An unexpected error occurred\<close> otherwise.
\<close>

theorem store_operations_structured:
  "structured (fst (create fs nid d))
   \<and> structured (fst (getById fs i))
   \<and> structured (fst (update fs i u))
   \<and> structured (fst (delete fs i))
   \<and> structured (fst (query engine fs q))
   \<and> (faults fs = Some e # rest \<longrightarrow>
        fst (create fs nid d) = \<lparr>success = False, data = None, error = Some (surfaced e)\<rparr>
        \<and> fst (getById fs i) = \<lparr>success = False, data = None, error = Some (surfaced e)\<rparr>
        \<and> fst (update fs i u) = \<lparr>success = False, data = None, error = Some (surfaced e)\<rparr>
        \<and> fst (delete fs i) = \<lparr>success = False, data = None, error = Some (surfaced e)\<rparr>
        \<and> fst (query engine fs q) = \<lparr>success = False, data = None, error = Some (surfaced e)\<rparr>)"
proof -
  have "faults fs = Some e # rest \<longrightarrow>
        fst (create fs nid d) = \<lparr>success = False, data = None, error = Some (surfaced e)\<rparr>
        \<and> fst (getById fs i) = \<lparr>success = False, data = None, error = Some (surfaced e)\<rparr>
        \<and> fst (update fs i u) = \<lparr>success = False, data = None, error = Some (surfaced e)\<rparr>
        \<and> fst (delete fs i) = \<lparr>success = False, data = None, error = Some (surfaced e)\<rparr>
        \<and> fst (query engine fs q) = \<lparr>success = False, data = None, error = Some (surfaced e)\<rparr>"
    by (simp add: create_def getById_def update_def delete_def query_def addDoc_def getDoc_def
          updateDoc_def deleteDoc_def getDocs_def next_fault_throws handleError_surfaced)
  then show ?thesis
    using create_structured getById_structured update_structured delete_structured query_structured
    by blast
qed

theorem store_operations_structured_witness:
  "faults brokenStore = Some firestoreUnavailable # []
   \<and> fst (create brokenStore ''r1'' sampleData)
       = \<lparr>success = False, data = None,
          error = Some ''Failed to get document because the client is offline.''\<rparr>
   \<and> fst (query noEngine brokenStore noOptions)
       = \<lparr>success = False, data = None,
          error = Some ''Failed to get document because the client is offline.''\<rparr>
   \<and> structured (fst (getById emptyStore ''r1''))"
proof -
  have a: "faults brokenStore = Some firestoreUnavailable # []"
    by (simp add: brokenStore_def)
  have s: "surfaced firestoreUnavailable = ''Failed to get document because the client is offline.''"
    by (simp add: surfaced_def orElse_def firestoreUnavailable_def)
  show ?thesis
    using store_operations_structured[of brokenStore "''r1''" sampleData "''r1''" noUpdate
            noEngine noOptions firestoreUnavailable "[]"]
          store_operations_structured[of emptyStore "''r1''" sampleData "''r1''" noUpdate
            noEngine noOptions firestoreUnavailable "[]"] a s
    by simp
qed

end
